theory Spec2Isabelle
  imports Main "HOL-Library.Sublist"
begin

section \<open>The SQL adapter of clp-py-utils\<close>

text \<open>
  The module \<^verbatim>\<open>clp_py_utils/sql_adapter.py\<close> defines one class, \<^verbatim>\<open>SQL_Adapter\<close>,
  with a constructor and three methods. The methods call two client libraries and the
  \<^verbatim>\<open>logging\<close> module, and they raise. The embedding makes all of that explicit:
  an exception is a value, a method returns \<open>Inl\<close> of the exception it raises or
  \<open>Inr\<close> of what it returns, and every call that leaves the module (a client's
  \<^verbatim>\<open>connect\<close>, \<^verbatim>\<open>logging.error\<close>) is appended to a trace that is part of the state.
\<close>

subsection \<open>Exceptions\<close>

text \<open>
  The exceptions the module can meet. \<open>Mysql_connector_Error errno s\<close> is an instance of
  \<^verbatim>\<open>mysql.connector.Error\<close> (or of a subclass) with its \<^verbatim>\<open>errno\<close> attribute and the text
  \<^verbatim>\<open>str\<close> gives for it; \<open>Mariadb_Error s\<close> is an instance of \<^verbatim>\<open>mariadb.Error\<close> with the
  text \<^verbatim>\<open>str\<close> gives for it; \<open>NotImplementedError args\<close> is the builtin with its \<^verbatim>\<open>args\<close>
  tuple; \<open>Other_exception c s\<close> is an instance of any other class \<open>c\<close>. An exception
  instance is identified with its value: "the same instance" is equality.
\<close>

datatype py_exception =
    Mysql_connector_Error int string
  | Mariadb_Error string
  | NotImplementedError "string list"
  | Other_exception string string

text \<open>The two codes of \<^verbatim>\<open>mysql.connector.errorcode\<close> the module compares with.\<close>

definition ER_ACCESS_DENIED_ERROR :: int where
  "ER_ACCESS_DENIED_ERROR = 1045"

definition ER_BAD_DB_ERROR :: int where
  "ER_BAD_DB_ERROR = 1049"

subsection \<open>The configuration and the adapter\<close>

text \<open>
  \<^verbatim>\<open>clp_py_utils.clp_config.Database\<close> is imported, not defined, by the module. The module
  reads its attributes \<^verbatim>\<open>type\<close> and \<^verbatim>\<open>name\<close>; whatever else the class holds (host, port,
  credentials) lives in the extension part of the record.
\<close>

record Database =
  type :: string
  name :: string

record 'z SQL_Adapter =
  database_config :: "'z Database_scheme"

text \<open>\<^verbatim>\<open>SQL_Adapter.__init__\<close>: one assignment, no check, no way to fail.\<close>

definition SQL_Adapter_init :: "'z Database_scheme \<Rightarrow> 'z SQL_Adapter" where
  "SQL_Adapter_init cfg = \<lparr>database_config = cfg\<rparr>"

subsection \<open>The world outside the module\<close>

text \<open>What \<^verbatim>\<open>logging.error\<close> is given: a string, or an exception object.\<close>

datatype log_msg = Str string | Exc py_exception

text \<open>
  The calls that leave the module, in the order they are made: the two clients'
  \<^verbatim>\<open>connect\<close>, each with the keyword arguments it was given, and \<^verbatim>\<open>logging.error\<close>.
\<close>

datatype 'p event =
    Call_mysql_connector_connect 'p
  | Call_mariadb_connect 'p
  | Call_logging_error log_msg

text \<open>
  The state a method runs in: the adapter object (\<^verbatim>\<open>self\<close>) and the trace so far.
\<close>

record ('z, 'p) state =
  self :: "'z SQL_Adapter"
  trace :: "'p event list"

text \<open>
  The code the module calls and does not define, taken as parameters:
  \<^verbatim>\<open>Database.get_mysql_connection_params\<close>, \<^verbatim>\<open>mysql.connector.connect\<close> and
  \<^verbatim>\<open>mariadb.connect\<close>. Each may raise any exception, and its outcome may depend on all
  that has happened before (the trace). \<open>'p\<close> is the type of the keyword-argument
  mapping, \<open>'c\<close> the type of connection handles.
\<close>

record ('z, 'p, 'c) env =
  get_mysql_connection_params :: "'p event list \<Rightarrow> 'z Database_scheme \<Rightarrow> py_exception + 'p"
  mysql_connector_connect :: "'p event list \<Rightarrow> 'p \<Rightarrow> py_exception + 'c"
  mariadb_connect :: "'p event list \<Rightarrow> 'p \<Rightarrow> py_exception + 'c"

definition emit :: "'p event \<Rightarrow> ('z, 'p) state \<Rightarrow> ('z, 'p) state" where
  "emit e s = s\<lparr>trace := trace s @ [e]\<rparr>"

text \<open>\<^verbatim>\<open>logging.error(msg)\<close>.\<close>

definition logging_error :: "log_msg \<Rightarrow> ('z, 'p) state \<Rightarrow> ('z, 'p) state" where
  "logging_error msg s = emit (Call_logging_error msg) s"

subsection \<open>\<^verbatim>\<open>create_mysql_connection\<close>\<close>

text \<open>
  The body of the \<^verbatim>\<open>try\<close>: the parameters are computed first, inside the \<^verbatim>\<open>try\<close>, and
  \<^verbatim>\<open>connect\<close> is called only if that returned.
\<close>

definition mysql_try ::
  "('z, 'p, 'c) env \<Rightarrow> ('z, 'p) state \<Rightarrow> (py_exception + 'c) \<times> ('z, 'p) state" where
  "mysql_try env s =
     (case get_mysql_connection_params env (trace s) (database_config (self s)) of
        Inl err \<Rightarrow> (Inl err, s)
      | Inr kwargs \<Rightarrow>
          (mysql_connector_connect env (trace s) kwargs,
           emit (Call_mysql_connector_connect kwargs) s))"

text \<open>
  The \<^verbatim>\<open>except mysql.connector.Error as err\<close> clause: it catches this class only, logs
  one message chosen by \<^verbatim>\<open>err.errno\<close> and raises \<^verbatim>\<open>err\<close> again. Any other exception
  passes through untouched.
\<close>

fun mysql_except ::
  "('z, 'p) state \<Rightarrow> py_exception \<Rightarrow> (py_exception + 'c) \<times> ('z, 'p) state" where
  "mysql_except s (Mysql_connector_Error errno m) =
     (let err = Mysql_connector_Error errno m in
      (Inl err,
       if errno = ER_ACCESS_DENIED_ERROR then
         logging_error (Str ''Database access denied.'') s
       else if errno = ER_BAD_DB_ERROR then
         logging_error
           (Str (''Specified database '' @ [CHR 0x22] @ name (database_config (self s))
                 @ [CHR 0x22] @ '' does not exist.'')) s
       else
         logging_error (Exc err) s))"
| "mysql_except s err = (Inl err, s)"

definition create_mysql_connection ::
  "('z, 'p, 'c) env \<Rightarrow> ('z, 'p) state \<Rightarrow> (py_exception + 'c) \<times> ('z, 'p) state" where
  "create_mysql_connection env s =
     (case mysql_try env s of
        (Inl err, s') \<Rightarrow> mysql_except s' err
      | (Inr connection, s') \<Rightarrow> (Inr connection, s'))"

subsection \<open>\<^verbatim>\<open>create_mariadb_connection\<close>\<close>

definition mariadb_try ::
  "('z, 'p, 'c) env \<Rightarrow> ('z, 'p) state \<Rightarrow> (py_exception + 'c) \<times> ('z, 'p) state" where
  "mariadb_try env s =
     (case get_mysql_connection_params env (trace s) (database_config (self s)) of
        Inl err \<Rightarrow> (Inl err, s)
      | Inr kwargs \<Rightarrow>
          (mariadb_connect env (trace s) kwargs,
           emit (Call_mariadb_connect kwargs) s))"

text \<open>
  The \<^verbatim>\<open>except mariadb.Error as err\<close> clause. The f-string formats \<^verbatim>\<open>err\<close> with
  \<^verbatim>\<open>str\<close>, which gives the text \<open>m\<close> the error carries.
\<close>

fun mariadb_except ::
  "('z, 'p) state \<Rightarrow> py_exception \<Rightarrow> (py_exception + 'c) \<times> ('z, 'p) state" where
  "mariadb_except s (Mariadb_Error m) =
     (let err = Mariadb_Error m in
      (Inl err, logging_error (Str (''Error connecting to MariaDB: '' @ m)) s))"
| "mariadb_except s err = (Inl err, s)"

definition create_mariadb_connection ::
  "('z, 'p, 'c) env \<Rightarrow> ('z, 'p) state \<Rightarrow> (py_exception + 'c) \<times> ('z, 'p) state" where
  "create_mariadb_connection env s =
     (case mariadb_try env s of
        (Inl err, s') \<Rightarrow> mariadb_except s' err
      | (Inr connection, s') \<Rightarrow> (Inr connection, s'))"

subsection \<open>\<^verbatim>\<open>create_connection\<close>\<close>

text \<open>
  \<^verbatim>\<open>raise NotImplementedError\<close> raises the class: Python instantiates it with no
  argument, so the instance has the empty \<^verbatim>\<open>args\<close> tuple.
\<close>

definition create_connection ::
  "('z, 'p, 'c) env \<Rightarrow> ('z, 'p) state \<Rightarrow> (py_exception + 'c) \<times> ('z, 'p) state" where
  "create_connection env s =
     (if ''mysql'' = type (database_config (self s)) then create_mysql_connection env s
      else if ''mariadb'' = type (database_config (self s)) then create_mariadb_connection env s
      else (Inl (NotImplementedError []), s))"

subsection \<open>Observing a run\<close>

text \<open>The messages given to \<^verbatim>\<open>logging.error\<close> in a trace, in order.\<close>

fun logged :: "'p event list \<Rightarrow> log_msg list" where
  "logged [] = []"
| "logged (Call_logging_error msg # es) = msg # logged es"
| "logged (e # es) = logged es"

text \<open>The keyword arguments given to either client's \<^verbatim>\<open>connect\<close> in a trace, in order.\<close>

fun connect_args :: "'p event list \<Rightarrow> 'p list" where
  "connect_args [] = []"
| "connect_args (Call_mysql_connector_connect kwargs # es) = kwargs # connect_args es"
| "connect_args (Call_mariadb_connect kwargs # es) = kwargs # connect_args es"
| "connect_args (e # es) = connect_args es"

text \<open>\<^verbatim>\<open>isinstance(err, mysql.connector.Error)\<close> and \<^verbatim>\<open>isinstance(err, mariadb.Error)\<close>.\<close>

fun is_mysql_connector_Error :: "py_exception \<Rightarrow> bool" where
  "is_mysql_connector_Error (Mysql_connector_Error errno m) = True"
| "is_mysql_connector_Error err = False"

fun is_mariadb_Error :: "py_exception \<Rightarrow> bool" where
  "is_mariadb_Error (Mariadb_Error m) = True"
| "is_mariadb_Error err = False"

text \<open>
  A caller's use of one adapter: any sequence of calls of the three methods. A caller
  may catch what a call raises and go on, so the sequence runs to its end whatever each
  call gives.
\<close>

datatype call = Create_connection | Create_mysql_connection | Create_mariadb_connection

fun run_call ::
  "('z, 'p, 'c) env \<Rightarrow> call \<Rightarrow> ('z, 'p) state \<Rightarrow> (py_exception + 'c) \<times> ('z, 'p) state" where
  "run_call env Create_connection s = create_connection env s"
| "run_call env Create_mysql_connection s = create_mysql_connection env s"
| "run_call env Create_mariadb_connection s = create_mariadb_connection env s"

fun run_calls :: "('z, 'p, 'c) env \<Rightarrow> call list \<Rightarrow> ('z, 'p) state \<Rightarrow> ('z, 'p) state" where
  "run_calls env [] s = s"
| "run_calls env (c # cs) s = run_calls env cs (snd (run_call env c s))"

text \<open>The same state with another type discriminator in the configuration.\<close>

definition with_type :: "string \<Rightarrow> ('z, 'p) state \<Rightarrow> ('z, 'p) state" where
  "with_type t s = s\<lparr>self := (self s)\<lparr>database_config := (database_config (self s))\<lparr>type := t\<rparr>\<rparr>\<rparr>"

subsection \<open>Concrete inputs\<close>

text \<open>
  A configuration for the database \<^verbatim>\<open>orders\<close>, a fresh adapter on it, and clients whose
  \<^verbatim>\<open>connect\<close> has a fixed outcome. Connection handles are numbers here.
\<close>

type_synonym kwargs = "(string \<times> string) list"

definition orders_config :: "string \<Rightarrow> Database" where
  "orders_config t = \<lparr>type = t, name = ''orders''\<rparr>"

definition orders_state :: "string \<Rightarrow> (unit, kwargs) state" where
  "orders_state t = \<lparr>self = SQL_Adapter_init (orders_config t), trace = []\<rparr>"

definition orders_kwargs :: kwargs where
  "orders_kwargs = [(''host'', ''localhost''), (''database'', ''orders'')]"

definition fixed_env :: "py_exception + nat \<Rightarrow> py_exception + nat \<Rightarrow> (unit, kwargs, nat) env" where
  "fixed_env r1 r2 =
     \<lparr>get_mysql_connection_params = (\<lambda>t cfg. Inr [(''host'', ''localhost''), (''database'', name cfg)]),
      mysql_connector_connect = (\<lambda>t kw. r1),
      mariadb_connect = (\<lambda>t kw. r2)\<rparr>"

section \<open>Properties\<close>

subsection \<open>Shared facts\<close>

lemma trace_emit: "trace (emit e s) = trace s @ [e]"
  by (simp add: emit_def)

lemma self_emit: "self (emit e s) = self s"
  by (simp add: emit_def)

lemma logged_append: "logged (xs @ ys) = logged xs @ logged ys"
  by (induction xs rule: logged.induct) simp_all

lemma connect_args_append: "connect_args (xs @ ys) = connect_args xs @ connect_args ys"
  by (induction xs rule: connect_args.induct) simp_all

lemma create_mysql_connection_unfold:
  "create_mysql_connection env s =
     (case get_mysql_connection_params env (trace s) (database_config (self s)) of
        Inl err \<Rightarrow> mysql_except s err
      | Inr kwargs \<Rightarrow>
          (case mysql_connector_connect env (trace s) kwargs of
             Inl err \<Rightarrow> mysql_except (emit (Call_mysql_connector_connect kwargs) s) err
           | Inr connection \<Rightarrow> (Inr connection, emit (Call_mysql_connector_connect kwargs) s)))"
  by (simp add: create_mysql_connection_def mysql_try_def split: sum.splits)

lemma create_mariadb_connection_unfold:
  "create_mariadb_connection env s =
     (case get_mysql_connection_params env (trace s) (database_config (self s)) of
        Inl err \<Rightarrow> mariadb_except s err
      | Inr kwargs \<Rightarrow>
          (case mariadb_connect env (trace s) kwargs of
             Inl err \<Rightarrow> mariadb_except (emit (Call_mariadb_connect kwargs) s) err
           | Inr connection \<Rightarrow> (Inr connection, emit (Call_mariadb_connect kwargs) s)))"
  by (simp add: create_mariadb_connection_def mariadb_try_def split: sum.splits)

lemma fst_mysql_except: "fst (mysql_except s err) = Inl err"
  by (cases err) (simp_all add: Let_def)

lemma fst_mariadb_except: "fst (mariadb_except s err) = Inl err"
  by (cases err) (simp_all add: Let_def)

lemma self_mysql_except: "self (snd (mysql_except s err)) = self s"
  by (cases err) (simp_all add: Let_def logging_error_def self_emit)

lemma self_mariadb_except: "self (snd (mariadb_except s err)) = self s"
  by (cases err) (simp_all add: Let_def logging_error_def self_emit)

lemma mysql_except_other:
  "\<not> is_mysql_connector_Error err \<Longrightarrow> mysql_except s err = (Inl err, s)"
  by (cases err) simp_all

lemma mariadb_except_other:
  "\<not> is_mariadb_Error err \<Longrightarrow> mariadb_except s err = (Inl err, s)"
  by (cases err) simp_all

lemma logged_mysql_except:
  "length (logged (trace (snd (mysql_except s err)))) \<le> Suc (length (logged (trace s)))"
  by (cases err) (simp_all add: Let_def logging_error_def trace_emit logged_append)

lemma logged_mariadb_except:
  "length (logged (trace (snd (mariadb_except s err)))) \<le> Suc (length (logged (trace s)))"
  by (cases err) (simp_all add: Let_def logging_error_def trace_emit logged_append)

lemma connect_args_mysql_except:
  "connect_args (trace (snd (mysql_except s err))) = connect_args (trace s)"
  by (cases err) (simp_all add: Let_def logging_error_def trace_emit connect_args_append)

lemma connect_args_mariadb_except:
  "connect_args (trace (snd (mariadb_except s err))) = connect_args (trace s)"
  by (cases err) (simp_all add: Let_def logging_error_def trace_emit connect_args_append)

lemma fst_create_mysql_connection:
  "fst (create_mysql_connection env s) =
     (case get_mysql_connection_params env (trace s) (database_config (self s)) of
        Inl err \<Rightarrow> Inl err
      | Inr kwargs \<Rightarrow> mysql_connector_connect env (trace s) kwargs)"
  by (simp add: create_mysql_connection_unfold fst_mysql_except split: sum.splits)

lemma fst_create_mariadb_connection:
  "fst (create_mariadb_connection env s) =
     (case get_mysql_connection_params env (trace s) (database_config (self s)) of
        Inl err \<Rightarrow> Inl err
      | Inr kwargs \<Rightarrow> mariadb_connect env (trace s) kwargs)"
  by (simp add: create_mariadb_connection_unfold fst_mariadb_except split: sum.splits)

lemma self_create_mysql_connection: "self (snd (create_mysql_connection env s)) = self s"
  by (simp add: create_mysql_connection_unfold self_mysql_except self_emit split: sum.splits)

lemma self_create_mariadb_connection: "self (snd (create_mariadb_connection env s)) = self s"
  by (simp add: create_mariadb_connection_unfold self_mariadb_except self_emit split: sum.splits)

lemma self_create_connection: "self (snd (create_connection env s)) = self s"
  by (simp add: create_connection_def self_create_mysql_connection
      self_create_mariadb_connection)

lemma logged_create_mysql_connection:
  "length (logged (trace (snd (create_mysql_connection env s)))) \<le> Suc (length (logged (trace s)))"
proof -
  have h: "length (logged (trace (snd (mysql_except (emit (Call_mysql_connector_connect kw) s) err))))
          \<le> Suc (length (logged (trace s)))" for kw err
    using logged_mysql_except [of "emit (Call_mysql_connector_connect kw) s" err]
    by (simp add: trace_emit logged_append)
  show ?thesis
    by (simp add: create_mysql_connection_unfold logged_mysql_except h trace_emit logged_append
        split: sum.splits)
qed

lemma logged_create_mariadb_connection:
  "length (logged (trace (snd (create_mariadb_connection env s)))) \<le> Suc (length (logged (trace s)))"
proof -
  have h: "length (logged (trace (snd (mariadb_except (emit (Call_mariadb_connect kw) s) err))))
          \<le> Suc (length (logged (trace s)))" for kw err
    using logged_mariadb_except [of "emit (Call_mariadb_connect kw) s" err]
    by (simp add: trace_emit logged_append)
  show ?thesis
    by (simp add: create_mariadb_connection_unfold logged_mariadb_except h trace_emit logged_append
        split: sum.splits)
qed

lemma connect_args_create_mysql_connection:
  "connect_args (trace (snd (create_mysql_connection env s))) =
     connect_args (trace s) @
     (case get_mysql_connection_params env (trace s) (database_config (self s)) of
        Inl err \<Rightarrow> []
      | Inr kwargs \<Rightarrow> [kwargs])"
  by (simp add: create_mysql_connection_unfold connect_args_mysql_except trace_emit
      connect_args_append self_emit split: sum.splits)

lemma connect_args_create_mariadb_connection:
  "connect_args (trace (snd (create_mariadb_connection env s))) =
     connect_args (trace s) @
     (case get_mysql_connection_params env (trace s) (database_config (self s)) of
        Inl err \<Rightarrow> []
      | Inr kwargs \<Rightarrow> [kwargs])"
  by (simp add: create_mariadb_connection_unfold connect_args_mariadb_except trace_emit
      connect_args_append self_emit split: sum.splits)

lemma self_run_call: "self (snd (run_call env c s)) = self s"
  by (cases c)
    (simp_all add: self_create_connection self_create_mysql_connection
      self_create_mariadb_connection)

lemma self_run_calls: "self (run_calls env cs s) = self s"
  by (induction cs arbitrary: s) (simp_all add: self_run_call)

lemma logged_create_connection:
  "length (logged (trace (snd (create_connection env s)))) \<le> Suc (length (logged (trace s)))"
  by (simp add: create_connection_def logged_create_mysql_connection
      logged_create_mariadb_connection)

lemma connect_args_create_connection:
  "length (connect_args (trace (snd (create_connection env s))))
     \<le> Suc (length (connect_args (trace s)))"
  by (simp add: create_connection_def connect_args_create_mysql_connection
      connect_args_create_mariadb_connection split: sum.splits)

subsection \<open>Dispatch\<close>

text \<open>
  C1. When the configuration's type is \<^verbatim>\<open>"mysql"\<close>, \<open>create_connection\<close> is
  \<open>create_mysql_connection\<close>: the same result (returned handle or raised exception) and
  the same final state, so the same calls to the client and to the log. When the type is
  \<^verbatim>\<open>"mariadb"\<close>, it is \<open>create_mariadb_connection\<close> in the same sense.
\<close>

theorem create_connection_delegates:
  "(type (database_config (self s)) = ''mysql'' \<longrightarrow>
      create_connection env s = create_mysql_connection env s) \<and>
   (type (database_config (self s)) = ''mariadb'' \<longrightarrow>
      create_connection env s = create_mariadb_connection env s)"
  by (simp add: create_connection_def)

theorem create_connection_delegates_witness:
  "create_connection (fixed_env (Inr 7) (Inl (Mariadb_Error ''timeout''))) (orders_state ''mysql'')
     = create_mysql_connection (fixed_env (Inr 7) (Inl (Mariadb_Error ''timeout''))) (orders_state ''mysql'') \<and>
   create_connection (fixed_env (Inr 7) (Inl (Mariadb_Error ''timeout''))) (orders_state ''mariadb'')
     = create_mariadb_connection (fixed_env (Inr 7) (Inl (Mariadb_Error ''timeout''))) (orders_state ''mariadb'')"
proof -
  have h1: "type (database_config (self (orders_state ''mysql''))) = ''mysql''"
    by (simp add: orders_state_def orders_config_def SQL_Adapter_init_def)
  have h2: "type (database_config (self (orders_state ''mariadb''))) = ''mariadb''"
    by (simp add: orders_state_def orders_config_def SQL_Adapter_init_def)
  show ?thesis
    using h1 h2
      create_connection_delegates [of "orders_state ''mysql''"
        "fixed_env (Inr 7) (Inl (Mariadb_Error ''timeout''))"]
      create_connection_delegates [of "orders_state ''mariadb''"
        "fixed_env (Inr 7) (Inl (Mariadb_Error ''timeout''))"]
    by simp
qed

text \<open>
  C2. When the configuration's type is neither \<^verbatim>\<open>"mysql"\<close> nor \<^verbatim>\<open>"mariadb"\<close>,
  \<open>create_connection\<close> raises \<^verbatim>\<open>NotImplementedError\<close> and leaves the state as it was:
  nothing is logged and neither client's \<^verbatim>\<open>connect\<close> is called.
\<close>

theorem create_connection_unsupported:
  assumes "type (database_config (self s)) \<noteq> ''mysql''"
    and "type (database_config (self s)) \<noteq> ''mariadb''"
  shows "fst (create_connection env s) = Inl (NotImplementedError []) \<and>
         snd (create_connection env s) = s \<and>
         logged (trace (snd (create_connection env s))) = logged (trace s) \<and>
         connect_args (trace (snd (create_connection env s))) = connect_args (trace s)"
proof -
  have "create_connection env s = (Inl (NotImplementedError []), s)"
    using assms by (auto simp: create_connection_def)
  then show ?thesis by simp
qed

theorem create_connection_unsupported_witness:
  "fst (create_connection (fixed_env (Inr 7) (Inr 8)) (orders_state ''postgres''))
     = Inl (NotImplementedError []) \<and>
   trace (snd (create_connection (fixed_env (Inr 7) (Inr 8)) (orders_state ''postgres''))) = []"
proof -
  have h1: "type (database_config (self (orders_state ''postgres''))) \<noteq> ''mysql''"
    by (simp add: orders_state_def orders_config_def SQL_Adapter_init_def)
  have h2: "type (database_config (self (orders_state ''postgres''))) \<noteq> ''mariadb''"
    by (simp add: orders_state_def orders_config_def SQL_Adapter_init_def)
  show ?thesis
    using create_connection_unsupported [OF h1 h2, of "fixed_env (Inr 7) (Inr 8)"]
    by (simp add: orders_state_def)
qed

subsection \<open>What is logged when a client raises its own error\<close>

text \<open>
  C3. When \<^verbatim>\<open>mysql.connector.connect\<close> raises a \<^verbatim>\<open>mysql.connector.Error\<close>,
  \<open>create_mysql_connection\<close> adds to the trace the call of \<^verbatim>\<open>connect\<close> and exactly one
  call of \<^verbatim>\<open>logging.error\<close>. Its message is chosen by the error's code: the fixed text
  \<^verbatim>\<open>Database access denied.\<close> for access-denied; a text with the configuration's \<open>name\<close>
  in it for unknown-database; the error object itself for any other code.
\<close>

theorem create_mysql_connection_logs_by_errno:
  assumes "get_mysql_connection_params env (trace s) (database_config (self s)) = Inr kwargs"
    and "mysql_connector_connect env (trace s) kwargs = Inl (Mysql_connector_Error errno m)"
  shows "trace (snd (create_mysql_connection env s)) =
           trace s @
           [Call_mysql_connector_connect kwargs,
            Call_logging_error
              (if errno = ER_ACCESS_DENIED_ERROR then Str ''Database access denied.''
               else if errno = ER_BAD_DB_ERROR then
                 Str (''Specified database '' @ [CHR 0x22] @ name (database_config (self s))
                      @ [CHR 0x22] @ '' does not exist.'')
               else Exc (Mysql_connector_Error errno m))] \<and>
         (errno = ER_ACCESS_DENIED_ERROR \<longrightarrow>
            (\<exists>t. logged (trace (snd (create_mysql_connection env s))) = logged (trace s) @ [Str t] \<and>
                 sublist ''access denied'' t)) \<and>
         (errno = ER_BAD_DB_ERROR \<longrightarrow>
            (\<exists>t. logged (trace (snd (create_mysql_connection env s))) = logged (trace s) @ [Str t] \<and>
                 sublist (name (database_config (self s))) t))"
proof -
  let ?bad = "''Specified database '' @ [CHR 0x22] @ name (database_config (self s))
                @ [CHR 0x22] @ '' does not exist.''"
  have tr: "trace (snd (create_mysql_connection env s)) =
           trace s @
           [Call_mysql_connector_connect kwargs,
            Call_logging_error
              (if errno = ER_ACCESS_DENIED_ERROR then Str ''Database access denied.''
               else if errno = ER_BAD_DB_ERROR then Str ?bad
               else Exc (Mysql_connector_Error errno m))]"
    using assms
    by (simp add: create_mysql_connection_unfold Let_def logging_error_def trace_emit self_emit)
  have denied: "sublist ''access denied'' ''Database access denied.''"
  proof -
    have "''Database access denied.'' = ''Database '' @ ''access denied'' @ ''.''" by simp
    then show ?thesis by (metis sublist_appendI)
  qed
  have bad: "sublist (name (database_config (self s))) ?bad"
  proof -
    have "?bad = (''Specified database '' @ [CHR 0x22]) @ name (database_config (self s))
                   @ ([CHR 0x22] @ '' does not exist.'')"
      by simp
    then show ?thesis by (metis sublist_appendI)
  qed
  have ne: "ER_ACCESS_DENIED_ERROR \<noteq> ER_BAD_DB_ERROR"
    by (simp add: ER_ACCESS_DENIED_ERROR_def ER_BAD_DB_ERROR_def)
  have a: "errno = ER_ACCESS_DENIED_ERROR \<longrightarrow>
            (\<exists>t. logged (trace (snd (create_mysql_connection env s))) = logged (trace s) @ [Str t] \<and>
                 sublist ''access denied'' t)"
    using denied by (simp add: tr logged_append)
  have b: "errno = ER_BAD_DB_ERROR \<longrightarrow>
            (\<exists>t. logged (trace (snd (create_mysql_connection env s))) = logged (trace s) @ [Str t] \<and>
                 sublist (name (database_config (self s))) t)"
    using bad ne by (auto simp: tr logged_append)
  from tr a b show ?thesis by blast
qed

theorem create_mysql_connection_logs_by_errno_witness:
  "trace (snd (create_mysql_connection
       (fixed_env (Inl (Mysql_connector_Error 1049 ''Unknown database'')) (Inr 8))
       (orders_state ''mysql''))) =
     [Call_mysql_connector_connect orders_kwargs,
      Call_logging_error
        (Str (''Specified database '' @ [CHR 0x22] @ ''orders'' @ [CHR 0x22] @ '' does not exist.''))] \<and>
   trace (snd (create_mysql_connection
       (fixed_env (Inl (Mysql_connector_Error 1045 ''Access denied for user'')) (Inr 8))
       (orders_state ''mysql''))) =
     [Call_mysql_connector_connect orders_kwargs,
      Call_logging_error (Str ''Database access denied.'')] \<and>
   trace (snd (create_mysql_connection
       (fixed_env (Inl (Mysql_connector_Error 2003 ''Can not connect to MySQL server'')) (Inr 8))
       (orders_state ''mysql''))) =
     [Call_mysql_connector_connect orders_kwargs,
      Call_logging_error (Exc (Mysql_connector_Error 2003 ''Can not connect to MySQL server''))]"
proof -
  have p: "get_mysql_connection_params (fixed_env r1 r2) (trace (orders_state ''mysql''))
             (database_config (self (orders_state ''mysql''))) = Inr orders_kwargs" for r1 r2
    by (simp add: fixed_env_def orders_state_def orders_config_def orders_kwargs_def
        SQL_Adapter_init_def)
  have c: "mysql_connector_connect (fixed_env (Inl e) (Inr 8)) (trace (orders_state ''mysql''))
             orders_kwargs = Inl e" for e
    by (simp add: fixed_env_def)
  show ?thesis
    using create_mysql_connection_logs_by_errno [OF p c, of 1049 "''Unknown database''"]
      create_mysql_connection_logs_by_errno [OF p c, of 1045 "''Access denied for user''"]
      create_mysql_connection_logs_by_errno [OF p c, of 2003 "''Can not connect to MySQL server''"]
    by (simp add: ER_ACCESS_DENIED_ERROR_def ER_BAD_DB_ERROR_def orders_state_def
        orders_config_def SQL_Adapter_init_def)
qed

text \<open>
  C4. When \<^verbatim>\<open>mariadb.connect\<close> raises a \<^verbatim>\<open>mariadb.Error\<close>, \<open>create_mariadb_connection\<close>
  adds to the trace the call of \<^verbatim>\<open>connect\<close> and exactly one call of \<^verbatim>\<open>logging.error\<close>,
  whose message is \<^verbatim>\<open>Error connecting to MariaDB: \<close> followed by the error's text, and
  then raises that same error.
\<close>

theorem create_mariadb_connection_logs_and_raises:
  assumes "get_mysql_connection_params env (trace s) (database_config (self s)) = Inr kwargs"
    and "mariadb_connect env (trace s) kwargs = Inl (Mariadb_Error m)"
  shows "fst (create_mariadb_connection env s) = Inl (Mariadb_Error m) \<and>
         trace (snd (create_mariadb_connection env s)) =
           trace s @
           [Call_mariadb_connect kwargs,
            Call_logging_error (Str (''Error connecting to MariaDB: '' @ m))] \<and>
         (\<exists>t. logged (trace (snd (create_mariadb_connection env s))) = logged (trace s) @ [Str t] \<and>
              sublist m t)"
proof -
  have r: "fst (create_mariadb_connection env s) = Inl (Mariadb_Error m)"
    using assms by (simp add: create_mariadb_connection_unfold Let_def)
  have tr: "trace (snd (create_mariadb_connection env s)) =
           trace s @
           [Call_mariadb_connect kwargs,
            Call_logging_error (Str (''Error connecting to MariaDB: '' @ m))]"
    using assms
    by (simp add: create_mariadb_connection_unfold Let_def logging_error_def trace_emit)
  have sub: "sublist m (''Error connecting to MariaDB: '' @ m)"
    by (rule sublist_append_leftI)
  have lg: "logged (trace (snd (create_mariadb_connection env s))) =
              logged (trace s) @ [Str (''Error connecting to MariaDB: '' @ m)]"
    by (simp add: tr logged_append)
  from r tr lg sub show ?thesis by blast
qed

theorem create_mariadb_connection_logs_and_raises_witness:
  "fst (create_mariadb_connection (fixed_env (Inr 7) (Inl (Mariadb_Error ''timeout'')))
          (orders_state ''mariadb'')) = Inl (Mariadb_Error ''timeout'') \<and>
   trace (snd (create_mariadb_connection (fixed_env (Inr 7) (Inl (Mariadb_Error ''timeout'')))
          (orders_state ''mariadb''))) =
     [Call_mariadb_connect orders_kwargs,
      Call_logging_error (Str ''Error connecting to MariaDB: timeout'')]"
proof -
  have p: "get_mysql_connection_params (fixed_env (Inr 7) (Inl (Mariadb_Error ''timeout'')))
             (trace (orders_state ''mariadb''))
             (database_config (self (orders_state ''mariadb''))) = Inr orders_kwargs"
    by (simp add: fixed_env_def orders_state_def orders_config_def orders_kwargs_def
        SQL_Adapter_init_def)
  have c: "mariadb_connect (fixed_env (Inr 7) (Inl (Mariadb_Error ''timeout'')))
             (trace (orders_state ''mariadb'')) orders_kwargs = Inl (Mariadb_Error ''timeout'')"
    by (simp add: fixed_env_def)
  show ?thesis
    using create_mariadb_connection_logs_and_raises [OF p c]
    by (simp add: orders_state_def)
qed

subsection \<open>Failures reach the caller\<close>

text \<open>
  C5. In each of the three methods a failure is handed to the caller as it arose. The
  outcome of \<open>create_mysql_connection\<close> is the outcome of computing the parameters and
  calling \<^verbatim>\<open>mysql.connector.connect\<close>: the exception either of them raised, unchanged, or
  the handle \<^verbatim>\<open>connect\<close> returned; so no exception is swallowed or replaced. The same
  holds of \<open>create_mariadb_connection\<close> with \<^verbatim>\<open>mariadb.connect\<close>. The outcome of
  \<open>create_connection\<close> is that of the method it delegates to, or \<^verbatim>\<open>NotImplementedError\<close>.
  Each call of a method logs at most one message and calls \<^verbatim>\<open>connect\<close> at most once
  (nothing is retried).
\<close>

theorem failures_propagate_unchanged:
  "fst (create_mysql_connection env s) =
     (case get_mysql_connection_params env (trace s) (database_config (self s)) of
        Inl err \<Rightarrow> Inl err
      | Inr kwargs \<Rightarrow> mysql_connector_connect env (trace s) kwargs) \<and>
   fst (create_mariadb_connection env s) =
     (case get_mysql_connection_params env (trace s) (database_config (self s)) of
        Inl err \<Rightarrow> Inl err
      | Inr kwargs \<Rightarrow> mariadb_connect env (trace s) kwargs) \<and>
   fst (create_connection env s) =
     (if type (database_config (self s)) = ''mysql'' then fst (create_mysql_connection env s)
      else if type (database_config (self s)) = ''mariadb'' then
        fst (create_mariadb_connection env s)
      else Inl (NotImplementedError [])) \<and>
   length (logged (trace (snd (run_call env c s)))) \<le> length (logged (trace s)) + 1 \<and>
   length (connect_args (trace (snd (run_call env c s)))) \<le> length (connect_args (trace s)) + 1"
proof -
  have r: "fst (create_connection env s) =
     (if type (database_config (self s)) = ''mysql'' then fst (create_mysql_connection env s)
      else if type (database_config (self s)) = ''mariadb'' then
        fst (create_mariadb_connection env s)
      else Inl (NotImplementedError []))"
    by (simp add: create_connection_def)
  have l: "length (logged (trace (snd (run_call env c s)))) \<le> length (logged (trace s)) + 1"
    by (cases c)
      (simp_all add: logged_create_connection logged_create_mysql_connection
        logged_create_mariadb_connection)
  have k: "length (connect_args (trace (snd (run_call env c s))))
             \<le> length (connect_args (trace s)) + 1"
    by (cases c)
      (simp_all add: connect_args_create_connection connect_args_create_mysql_connection
        connect_args_create_mariadb_connection split: sum.splits)
  from fst_create_mysql_connection [of env s] fst_create_mariadb_connection [of env s] r l k
  show ?thesis by blast
qed

subsection \<open>The stored configuration\<close>

text \<open>
  C6. The constructor stores the configuration it is given, whatever it is, and cannot
  fail. After any sequence of calls of the three methods on the adapter it built, each
  returning or raising, the adapter still holds that configuration.
\<close>

theorem configuration_is_kept:
  "database_config (SQL_Adapter_init cfg) = cfg \<and>
   database_config (self (run_calls env cs \<lparr>self = SQL_Adapter_init cfg, trace = t\<rparr>)) = cfg"
  by (simp add: self_run_calls SQL_Adapter_init_def)

subsection \<open>The arguments of \<^verbatim>\<open>connect\<close>\<close>


subsection \<open>Exceptions of other classes, and success\<close>

text \<open>
  C8. Each handler catches its own client's error class only. When
  \<^verbatim>\<open>mysql.connector.connect\<close> raises an exception that is not a \<^verbatim>\<open>mysql.connector.Error\<close>,
  \<open>create_mysql_connection\<close> raises it and logs nothing: the call of \<^verbatim>\<open>connect\<close> is all
  it adds to the trace. Likewise \<open>create_mariadb_connection\<close> for an exception of
  \<^verbatim>\<open>mariadb.connect\<close> that is not a \<^verbatim>\<open>mariadb.Error\<close>.
\<close>

theorem foreign_exceptions_are_not_logged:
  assumes "get_mysql_connection_params env (trace s) (database_config (self s)) = Inr kwargs"
  shows "(mysql_connector_connect env (trace s) kwargs = Inl err \<and>
            \<not> is_mysql_connector_Error err \<longrightarrow>
            fst (create_mysql_connection env s) = Inl err \<and>
            trace (snd (create_mysql_connection env s)) =
              trace s @ [Call_mysql_connector_connect kwargs] \<and>
            logged (trace (snd (create_mysql_connection env s))) = logged (trace s)) \<and>
         (mariadb_connect env (trace s) kwargs = Inl err' \<and> \<not> is_mariadb_Error err' \<longrightarrow>
            fst (create_mariadb_connection env s) = Inl err' \<and>
            trace (snd (create_mariadb_connection env s)) =
              trace s @ [Call_mariadb_connect kwargs] \<and>
            logged (trace (snd (create_mariadb_connection env s))) = logged (trace s))"
  using assms
  by (simp add: create_mysql_connection_unfold create_mariadb_connection_unfold
      mysql_except_other mariadb_except_other trace_emit logged_append)

theorem foreign_exceptions_are_not_logged_witness:
  "create_mysql_connection
     (fixed_env (Inl (Other_exception ''TypeError'' ''bad keyword''))
        (Inl (Mysql_connector_Error 1045 ''Access denied for user'')))
     (orders_state ''mysql'') =
     (Inl (Other_exception ''TypeError'' ''bad keyword''),
      \<lparr>self = SQL_Adapter_init (orders_config ''mysql''),
       trace = [Call_mysql_connector_connect orders_kwargs]\<rparr>) \<and>
   create_mariadb_connection
     (fixed_env (Inl (Other_exception ''TypeError'' ''bad keyword''))
        (Inl (Mysql_connector_Error 1045 ''Access denied for user'')))
     (orders_state ''mysql'') =
     (Inl (Mysql_connector_Error 1045 ''Access denied for user''),
      \<lparr>self = SQL_Adapter_init (orders_config ''mysql''),
       trace = [Call_mariadb_connect orders_kwargs]\<rparr>)"
proof -
  let ?env = "fixed_env (Inl (Other_exception ''TypeError'' ''bad keyword''))
                (Inl (Mysql_connector_Error 1045 ''Access denied for user''))"
  have p: "get_mysql_connection_params ?env (trace (orders_state ''mysql''))
             (database_config (self (orders_state ''mysql''))) = Inr orders_kwargs"
    by (simp add: fixed_env_def orders_state_def orders_config_def orders_kwargs_def
        SQL_Adapter_init_def)
  have c1: "mysql_connector_connect ?env (trace (orders_state ''mysql'')) orders_kwargs
              = Inl (Other_exception ''TypeError'' ''bad keyword'') \<and>
            \<not> is_mysql_connector_Error (Other_exception ''TypeError'' ''bad keyword'')"
    by (simp add: fixed_env_def)
  have c2: "mariadb_connect ?env (trace (orders_state ''mysql'')) orders_kwargs
              = Inl (Mysql_connector_Error 1045 ''Access denied for user'') \<and>
            \<not> is_mariadb_Error (Mysql_connector_Error 1045 ''Access denied for user'')"
    by (simp add: fixed_env_def)
  have st: "self (snd r) = self (orders_state ''mysql'') \<Longrightarrow> fst r = e \<Longrightarrow> trace (snd r) = t
      \<Longrightarrow> r = (e, \<lparr>self = SQL_Adapter_init (orders_config ''mysql''), trace = t\<rparr>)"
    for r :: "(py_exception + nat) \<times> (unit, kwargs) state" and e t
    by (cases r) (auto simp: orders_state_def)
  from foreign_exceptions_are_not_logged [OF p] c1 c2
  have "fst (create_mysql_connection ?env (orders_state ''mysql''))
          = Inl (Other_exception ''TypeError'' ''bad keyword'')"
    and "trace (snd (create_mysql_connection ?env (orders_state ''mysql'')))
          = trace (orders_state ''mysql'') @ [Call_mysql_connector_connect orders_kwargs]"
    and "fst (create_mariadb_connection ?env (orders_state ''mysql''))
          = Inl (Mysql_connector_Error 1045 ''Access denied for user'')"
    and "trace (snd (create_mariadb_connection ?env (orders_state ''mysql'')))
          = trace (orders_state ''mysql'') @ [Call_mariadb_connect orders_kwargs]"
    by blast+
  then show ?thesis
    by (simp add: st self_create_mysql_connection self_create_mariadb_connection
        orders_state_def)
qed

text \<open>
  C9. When the client's \<^verbatim>\<open>connect\<close> returns a handle, the method returns that handle and
  logs nothing: the call of \<^verbatim>\<open>connect\<close> is all it adds to the trace. This holds of
  \<open>create_mysql_connection\<close>, of \<open>create_mariadb_connection\<close>, and of \<open>create_connection\<close>
  when the type is \<^verbatim>\<open>"mysql"\<close> or \<^verbatim>\<open>"mariadb"\<close>.
\<close>

theorem success_returns_handle_unlogged:
  assumes "get_mysql_connection_params env (trace s) (database_config (self s)) = Inr kwargs"
  shows "(mysql_connector_connect env (trace s) kwargs = Inr c \<longrightarrow>
            create_mysql_connection env s = (Inr c, emit (Call_mysql_connector_connect kwargs) s) \<and>
            logged (trace (snd (create_mysql_connection env s))) = logged (trace s) \<and>
            (type (database_config (self s)) = ''mysql'' \<longrightarrow>
               create_connection env s = (Inr c, emit (Call_mysql_connector_connect kwargs) s) \<and>
               logged (trace (snd (create_connection env s))) = logged (trace s))) \<and>
         (mariadb_connect env (trace s) kwargs = Inr c' \<longrightarrow>
            create_mariadb_connection env s = (Inr c', emit (Call_mariadb_connect kwargs) s) \<and>
            logged (trace (snd (create_mariadb_connection env s))) = logged (trace s) \<and>
            (type (database_config (self s)) = ''mariadb'' \<longrightarrow>
               create_connection env s = (Inr c', emit (Call_mariadb_connect kwargs) s) \<and>
               logged (trace (snd (create_connection env s))) = logged (trace s)))"
  using assms
  by (simp add: create_connection_def create_mysql_connection_unfold
      create_mariadb_connection_unfold trace_emit logged_append)

theorem success_returns_handle_unlogged_witness:
  "create_mysql_connection (fixed_env (Inr 7) (Inr 8)) (orders_state ''mysql'') =
     (Inr 7, \<lparr>self = SQL_Adapter_init (orders_config ''mysql''),
              trace = [Call_mysql_connector_connect orders_kwargs]\<rparr>) \<and>
   create_connection (fixed_env (Inr 7) (Inr 8)) (orders_state ''mysql'') =
     (Inr 7, \<lparr>self = SQL_Adapter_init (orders_config ''mysql''),
              trace = [Call_mysql_connector_connect orders_kwargs]\<rparr>) \<and>
   create_mariadb_connection (fixed_env (Inr 7) (Inr 8)) (orders_state ''mariadb'') =
     (Inr 8, \<lparr>self = SQL_Adapter_init (orders_config ''mariadb''),
              trace = [Call_mariadb_connect orders_kwargs]\<rparr>) \<and>
   create_connection (fixed_env (Inr 7) (Inr 8)) (orders_state ''mariadb'') =
     (Inr 8, \<lparr>self = SQL_Adapter_init (orders_config ''mariadb''),
              trace = [Call_mariadb_connect orders_kwargs]\<rparr>)"
proof -
  let ?env = "fixed_env (Inr 7) (Inr 8)"
  have p: "get_mysql_connection_params ?env (trace (orders_state t))
             (database_config (self (orders_state t))) = Inr orders_kwargs" for t
    by (simp add: fixed_env_def orders_state_def orders_config_def orders_kwargs_def
        SQL_Adapter_init_def)
  have c: "mysql_connector_connect ?env (trace (orders_state t)) orders_kwargs = Inr 7"
    "mariadb_connect ?env (trace (orders_state t)) orders_kwargs = Inr 8" for t
    by (simp_all add: fixed_env_def)
  have t: "type (database_config (self (orders_state t))) = t" for t
    by (simp add: orders_state_def orders_config_def SQL_Adapter_init_def)
  show ?thesis
    using success_returns_handle_unlogged [OF p, of "''mysql''" 7 8]
      success_returns_handle_unlogged [OF p, of "''mariadb''" 7 8]
    by (simp add: c t) (simp add: emit_def orders_state_def)
qed

text \<open>
  C10. The dispatch compares the type with the two literals by equality of strings.
  Put any string other than exactly \<^verbatim>\<open>mysql\<close> or \<^verbatim>\<open>mariadb\<close> in the configuration
  (another case, or spaces around it) and \<open>create_connection\<close> raises
  \<^verbatim>\<open>NotImplementedError\<close> with no argument: the same exception for every such string,
  with nothing of the string in it. The two exact strings are delegated.
\<close>

theorem dispatch_is_exact_match:
  assumes "t \<noteq> ''mysql''" and "t \<noteq> ''mariadb''"
  shows "fst (create_connection env (with_type t s)) = Inl (NotImplementedError []) \<and>
         fst (create_connection env (with_type ''mysql'' s))
           = fst (create_mysql_connection env (with_type ''mysql'' s)) \<and>
         fst (create_connection env (with_type ''mariadb'' s))
           = fst (create_mariadb_connection env (with_type ''mariadb'' s))"
  using assms by (simp add: create_connection_def with_type_def)

theorem dispatch_is_exact_match_witness:
  "fst (create_connection (fixed_env (Inr 7) (Inr 8)) (with_type ''MySQL'' (orders_state ''mysql'')))
     = Inl (NotImplementedError []) \<and>
   fst (create_connection (fixed_env (Inr 7) (Inr 8)) (with_type ''Mysql'' (orders_state ''mysql'')))
     = Inl (NotImplementedError []) \<and>
   fst (create_connection (fixed_env (Inr 7) (Inr 8)) (with_type '' mysql '' (orders_state ''mysql'')))
     = Inl (NotImplementedError []) \<and>
   fst (create_connection (fixed_env (Inr 7) (Inr 8)) (with_type ''MariaDB'' (orders_state ''MySQL'')))
     = Inl (NotImplementedError []) \<and>
   fst (create_connection (fixed_env (Inr 7) (Inr 8)) (with_type ''mysql'' (orders_state ''MySQL'')))
     = Inr 7"
proof -
  have n: "''MySQL'' \<noteq> ''mysql''" "''MySQL'' \<noteq> ''mariadb''"
    "''Mysql'' \<noteq> ''mysql''" "''Mysql'' \<noteq> ''mariadb''"
    "'' mysql '' \<noteq> ''mysql''" "'' mysql '' \<noteq> ''mariadb''"
    "''MariaDB'' \<noteq> ''mysql''" "''MariaDB'' \<noteq> ''mariadb''"
    by simp_all
  have ok: "fst (create_mysql_connection (fixed_env (Inr 7) (Inr 8))
              (with_type ''mysql'' (orders_state ''MySQL''))) = Inr 7"
    by (simp add: fst_create_mysql_connection fixed_env_def)
  show ?thesis
    using dispatch_is_exact_match [OF n(1) n(2), of "fixed_env (Inr 7) (Inr 8)" "orders_state ''mysql''"]
      dispatch_is_exact_match [OF n(3) n(4), of "fixed_env (Inr 7) (Inr 8)" "orders_state ''mysql''"]
      dispatch_is_exact_match [OF n(5) n(6), of "fixed_env (Inr 7) (Inr 8)" "orders_state ''mysql''"]
      dispatch_is_exact_match [OF n(7) n(8), of "fixed_env (Inr 7) (Inr 8)" "orders_state ''MySQL''"]
      ok
    by simp
qed

end
